theory Spec2Isabelle
  imports Main "HOL-Library.Char_ord" "HOL-Library.List_Lexorder" "HOL-Library.Sublist"
begin

section \<open>Data model of \<^verbatim>\<open>src/pages/QuizApp.tsx\<close>\<close>

text \<open>
  A row of the question table (interface \<^verbatim>\<open>QuestionRow\<close>). Every field is a string at
  run time: the rows come out of the CSV parser, and the component compares
  \<^verbatim>\<open>difficulty\<close> and \<^verbatim>\<open>type\<close> with string literals. Strings are \<^typ>\<open>string\<close>; their
  order (used by \<^verbatim>\<open>Array.prototype.sort\<close>) is the lexicographic order on character
  codes. The field \<^verbatim>\<open>type\<close> is called \<open>qtype\<close> here.
\<close>

record QuestionRow =
  set_id :: string
  question_id :: string
  domain :: string
  objective :: string
  difficulty :: string
  qtype :: string
  question :: string
  option_a :: string
  option_b :: string
  option_c :: string
  option_d :: string
  option_e :: string
  option_f :: string
  correct :: string
  explanation :: string
  image_url :: string
  tags :: string

text \<open>Interface \<^verbatim>\<open>QuizHistory\<close> with its fields \<^verbatim>\<open>q\<close>, \<^verbatim>\<open>sel\<close> and \<^verbatim>\<open>ok\<close>.\<close>

record QuizHistory =
  hist_q :: QuestionRow
  hist_sel :: "string list"
  hist_ok :: bool

datatype mode = Home | Quiz | Review | Results | Coverage

text \<open>
  The \<^verbatim>\<open>useState\<close> cells of the component \<^verbatim>\<open>QuizApp\<close>. The filter cell \<^verbatim>\<open>domain\<close> is
  called \<open>domainSel\<close>, since \<open>domain\<close> is already the row's field. The counters
  \<^verbatim>\<open>currentIdx\<close> and \<^verbatim>\<open>score\<close> start at 0 and are only ever incremented by 1.
\<close>

record app_state =
  allQs :: "QuestionRow list"
  filtered :: "QuestionRow list"
  setId :: string
  domainSel :: string
  diff :: string
  currentIdx :: nat
  score :: nat
  selected :: "string list"
  history :: "QuizHistory list"
  mode :: mode
  showAnswer :: bool
  darkMode :: bool

definition init :: app_state where
  "init = \<lparr> allQs = [], filtered = [], setId = [], domainSel = [], diff = [],
            currentIdx = 0, score = 0, selected = [], history = [], mode = Home,
            showAnswer = False, darkMode = False \<rparr>"

section \<open>Library functions of the host language\<close>

text \<open>
  \<^verbatim>\<open>String.prototype.split\<close> with a one-character separator: the pieces between the
  separators, empty pieces kept, so the result always has one piece more than the string
  has separators (\<^verbatim>\<open>"".split(";")\<close> is \<^verbatim>\<open>[""]\<close>).
\<close>

fun js_split :: "char \<Rightarrow> string \<Rightarrow> string list" where
  "js_split d [] = [[]]"
| "js_split d (c # cs) =
     (if c = d then [] # js_split d cs
      else (case js_split d cs of
              [] \<Rightarrow> [[c]]
            | t # ts \<Rightarrow> (c # t) # ts))"

text \<open>
  \<^verbatim>\<open>Array.from(new Set(xs))\<close>: the elements of \<open>xs\<close> in the order of their first
  occurrence, each once (a \<^verbatim>\<open>Set\<close> ignores the insertion of a member it has).
\<close>

definition js_Set :: "'a list \<Rightarrow> 'a list" where
  "js_Set xs = fold (\<lambda>x acc. if x \<in> set acc then acc else acc @ [x]) xs []"

section \<open>Derived values\<close>

text \<open>Lines 85 to 87: the option lists of the three selects.\<close>

definition setOptions :: "QuestionRow list \<Rightarrow> string list" where
  "setOptions qs = sort (js_Set (map set_id qs))"

definition domainOptions :: "QuestionRow list \<Rightarrow> string list" where
  "domainOptions qs = sort (js_Set (map domain qs))"

definition difficultyOptions :: "string list" where
  "difficultyOptions = [''easy'', ''medium'', ''hard'']"

text \<open>
  Lines 90 to 95: the filter effect. A filter cell holding the empty string is falsy and
  lets every row pass; otherwise the row's field must be strictly equal to the cell.
\<close>

definition applyFilters :: "QuestionRow list \<Rightarrow> string \<Rightarrow> string \<Rightarrow> string \<Rightarrow> QuestionRow list" where
  "applyFilters qs sid dm df =
     filter (\<lambda>q. (sid = [] \<or> set_id q = sid) \<and> (dm = [] \<or> domain q = dm)
                 \<and> (df = [] \<or> difficulty q = df)) qs"

text \<open>
  The effect runs after every change of \<^verbatim>\<open>allQs\<close>, \<^verbatim>\<open>setId\<close>, \<^verbatim>\<open>domain\<close> or \<^verbatim>\<open>diff\<close>
  and stores its result in \<^verbatim>\<open>filtered\<close>, before the next user event is handled.
\<close>

definition filterEffect :: "app_state \<Rightarrow> app_state" where
  "filterEffect s = s\<lparr>filtered := applyFilters (allQs s) (setId s) (domainSel s) (diff s)\<rparr>"

text \<open>Line 97: \<^verbatim>\<open>filtered[currentIdx]\<close>, which is \<^verbatim>\<open>undefined\<close> out of range.\<close>

definition current :: "app_state \<Rightarrow> QuestionRow option" where
  "current s = (if currentIdx s < length (filtered s) then Some (filtered s ! currentIdx s) else None)"

section \<open>Handlers\<close>

text \<open>
  \<^verbatim>\<open>startQuiz\<close> (lines 101 to 109). The first component of the result is the message of
  the blocking \<^verbatim>\<open>alert\<close>, when there is one.
\<close>

definition startQuiz :: "app_state \<Rightarrow> string option \<times> app_state" where
  "startQuiz s =
     (if length (filtered s) = 0 then (Some ''No questions match filters'', s)
      else (None, s\<lparr>currentIdx := 0, score := 0, selected := [], history := [],
                     showAnswer := False, mode := Quiz\<rparr>))"

text \<open>
  Lines 114 and 115 of \<^verbatim>\<open>submitAnswer\<close>: the tokens \<^verbatim>\<open>corr\<close> of the question's
  correct-answer field, and the value of \<^verbatim>\<open>ok\<close> for a selection and the question.
\<close>

definition corr :: "QuestionRow \<Rightarrow> string list" where
  "corr q = js_split CHR '';'' (correct q)"

definition answer_ok :: "string list \<Rightarrow> QuestionRow \<Rightarrow> bool" where
  "answer_ok sel q = (length sel = length (corr q) \<and> list_all (\<lambda>s. s \<in> set (corr q)) sel)"

text \<open>\<^verbatim>\<open>submitAnswer\<close> (lines 111 to 119).\<close>

definition submitAnswer :: "app_state \<Rightarrow> app_state" where
  "submitAnswer s =
     (case current s of
        None \<Rightarrow> s
      | Some q \<Rightarrow>
          if length (selected s) = 0 then s
          else (let ok = answer_ok (selected s) q
                in s\<lparr>score := score s + (if ok then 1 else 0),
                     history := history s @ [\<lparr>hist_q = q, hist_sel = selected s, hist_ok = ok\<rparr>],
                     showAnswer := True\<rparr>))"

text \<open>\<^verbatim>\<open>nextQuestion\<close> (lines 121 to 129).\<close>

definition nextQuestion :: "app_state \<Rightarrow> app_state" where
  "nextQuestion s =
     (if currentIdx s + 1 \<ge> length (filtered s) then s\<lparr>mode := Results\<rparr>
      else s\<lparr>currentIdx := currentIdx s + 1, selected := [], showAnswer := False\<rparr>)"

text \<open>\<^verbatim>\<open>resetQuiz\<close> (lines 131 to 138).\<close>

definition resetQuiz :: "app_state \<Rightarrow> app_state" where
  "resetQuiz s = s\<lparr>mode := Home, currentIdx := 0, score := 0, selected := [], history := [],
                   showAnswer := False\<rparr>"

text \<open>
  The \<^verbatim>\<open>onClick\<close> handler of \<^verbatim>\<open>OptionRow\<close> (lines 172 to 178) for the key letter \<open>k\<close>.
  \<^verbatim>\<open>current?.type === "multi"\<close> is false when there is no current question.
\<close>

definition optionRow_onClick :: "string \<Rightarrow> app_state \<Rightarrow> app_state" where
  "optionRow_onClick k s =
     (if showAnswer s then s
      else s\<lparr>selected :=
               (if (case current s of None \<Rightarrow> False | Some q \<Rightarrow> qtype q = ''multi'')
                then (if k \<in> set (selected s) then filter (\<lambda>i. i \<noteq> k) (selected s)
                      else selected s @ [k])
                else [k])\<rparr>)"

section \<open>The rendered controls\<close>

text \<open>
  \<^verbatim>\<open>renderQuiz\<close> (lines 349 to 354) builds one \<^verbatim>\<open>OptionRow\<close> per key letter A to F with
  the text of that option; a row with an empty text renders nothing (line 156).
\<close>

definition optionText :: "QuestionRow \<Rightarrow> string \<Rightarrow> string option" where
  "optionText q k =
     (if k = ''A'' then Some (option_a q)
      else if k = ''B'' then Some (option_b q)
      else if k = ''C'' then Some (option_c q)
      else if k = ''D'' then Some (option_d q)
      else if k = ''E'' then Some (option_e q)
      else if k = ''F'' then Some (option_f q)
      else None)"

definition optionRendered :: "app_state \<Rightarrow> string \<Rightarrow> bool" where
  "optionRendered s k =
     (case current s of
        None \<Rightarrow> False
      | Some q \<Rightarrow> (case optionText q k of None \<Rightarrow> False | Some t \<Rightarrow> t \<noteq> []))"

text \<open>
  The user events the page can receive. \<open>CsvLoaded\<close> is the resolution of the fetch started
  on mount (line 76), which stores the parsed rows in \<^verbatim>\<open>allQs\<close>; the others are clicks
  on, or selections in, controls of the page.
\<close>

datatype event =
    CsvLoaded
  | SelectSet string
  | SelectDomain string
  | SelectDifficulty string
  | ClickStart
  | ClickOption string
  | ClickSubmit
  | ClickNext
  | ClickReset
  | ClickReview
  | ClickDarkMode

text \<open>
  \<open>fire ds e s\<close> is the state after the event \<open>e\<close> in state \<open>s\<close>, where \<open>ds\<close> is the
  table the fetch resolves to (the rows of the file that have a question text, line 45).
  The fetch resolves once; \<open>CsvLoaded\<close> is allowed in every state, and storing the same
  table a second time changes nothing. For the other events the result is \<open>None\<close> when
  the page in state \<open>s\<close> does not render the control of \<open>e\<close>, or renders it disabled:
  \<^item> the three selects and the start button belong to \<^verbatim>\<open>renderHome\<close>; a select offers the
    empty value and its option list; the start button is disabled when \<^verbatim>\<open>filtered\<close> is
    empty (line 299);
  \<^item> \<^verbatim>\<open>renderQuiz\<close> renders nothing but a message when there is no current question
    (line 310); otherwise the option rows, the button of \<^verbatim>\<open>submitAnswer\<close> while
    \<^verbatim>\<open>showAnswer\<close> is false (disabled when nothing is selected, line 373) and the button
    of \<^verbatim>\<open>nextQuestion\<close> while it is true (lines 372 to 380);
  \<^item> \<^verbatim>\<open>resetQuiz\<close> is on the header's button whenever the mode is not home (line 567),
    and on buttons of the quiz, results and review pages;
  \<^item> the results page has the button that sets the mode to review (line 406);
  \<^item> the header's theme button is always there (line 562).
\<close>

fun fire :: "QuestionRow list \<Rightarrow> event \<Rightarrow> app_state \<Rightarrow> app_state option" where
  "fire ds CsvLoaded s = Some (filterEffect (s\<lparr>allQs := ds\<rparr>))"
| "fire ds (SelectSet v) s =
     (if mode s = Home \<and> v \<in> set ([] # setOptions (allQs s))
      then Some (filterEffect (s\<lparr>setId := v\<rparr>)) else None)"
| "fire ds (SelectDomain v) s =
     (if mode s = Home \<and> v \<in> set ([] # domainOptions (allQs s))
      then Some (filterEffect (s\<lparr>domainSel := v\<rparr>)) else None)"
| "fire ds (SelectDifficulty v) s =
     (if mode s = Home \<and> v \<in> set ([] # difficultyOptions)
      then Some (filterEffect (s\<lparr>diff := v\<rparr>)) else None)"
| "fire ds ClickStart s =
     (if mode s = Home \<and> filtered s \<noteq> [] then Some (snd (startQuiz s)) else None)"
| "fire ds (ClickOption k) s =
     (if mode s = Quiz \<and> optionRendered s k then Some (optionRow_onClick k s) else None)"
| "fire ds ClickSubmit s =
     (if mode s = Quiz \<and> current s \<noteq> None \<and> \<not> showAnswer s \<and> selected s \<noteq> []
      then Some (submitAnswer s) else None)"
| "fire ds ClickNext s =
     (if mode s = Quiz \<and> current s \<noteq> None \<and> showAnswer s
      then Some (nextQuestion s) else None)"
| "fire ds ClickReset s = (if mode s \<noteq> Home then Some (resetQuiz s) else None)"
| "fire ds ClickReview s = (if mode s = Results then Some (s\<lparr>mode := Review\<rparr>) else None)"
| "fire ds ClickDarkMode s = Some (s\<lparr>darkMode := \<not> darkMode s\<rparr>)"

text \<open>A session: the events of a list, one after the other, each one possible where it occurs.\<close>

fun run :: "QuestionRow list \<Rightarrow> event list \<Rightarrow> app_state \<Rightarrow> app_state option" where
  "run ds [] s = Some s"
| "run ds (e # es) s = (case fire ds e s of None \<Rightarrow> None | Some s' \<Rightarrow> run ds es s')"

text \<open>
  The state after the user tries the event \<open>e\<close> in state \<open>s\<close>: a control that the page
  does not render, or renders disabled, runs no handler, and the state stays as it is.
\<close>

definition attempt :: "QuestionRow list \<Rightarrow> event \<Rightarrow> app_state \<Rightarrow> app_state" where
  "attempt ds e s = (case fire ds e s of None \<Rightarrow> s | Some t \<Rightarrow> t)"

text \<open>
  The number of clicks on the submit button after the last click on the start button or
  on a reset button, counted from \<open>n\<close>.
\<close>

fun submitCalls :: "nat \<Rightarrow> event list \<Rightarrow> nat" where
  "submitCalls n [] = n"
| "submitCalls n (ClickStart # es) = submitCalls 0 es"
| "submitCalls n (ClickReset # es) = submitCalls 0 es"
| "submitCalls n (ClickSubmit # es) = submitCalls (Suc n) es"
| "submitCalls n (_ # es) = submitCalls n es"

section \<open>Reachable states\<close>

text \<open>
  What every state of a session satisfies, for the table \<open>ds\<close> of the fetch: \<^verbatim>\<open>filtered\<close>
  is the result of the filter effect; the table is either not loaded yet or \<open>ds\<close>; in
  the quiz the index is inside \<^verbatim>\<open>filtered\<close>; no letter is selected twice; the score
  counts the history entries marked correct.
\<close>

definition session_inv :: "QuestionRow list \<Rightarrow> app_state \<Rightarrow> bool" where
  "session_inv ds s =
     (filtered s = applyFilters (allQs s) (setId s) (domainSel s) (diff s)
      \<and> (allQs s = [] \<or> allQs s = ds)
      \<and> (mode s = Quiz \<longrightarrow> currentIdx s < length (filtered s))
      \<and> distinct (selected s)
      \<and> score s = length (filter hist_ok (history s)))"

section \<open>A table of two questions and a session on it\<close>

definition q_easy :: QuestionRow where
  "q_easy = \<lparr> set_id = ''A'', question_id = ''1'', domain = ''Core'', objective = [],
              difficulty = ''easy'', qtype = ''single'', question = ''Q1'',
              option_a = ''yes'', option_b = ''no'', option_c = [], option_d = [],
              option_e = [], option_f = [], correct = ''A'', explanation = [],
              image_url = [], tags = [] \<rparr>"

definition q_hard :: QuestionRow where
  "q_hard = \<lparr> set_id = ''A'', question_id = ''2'', domain = ''Core'', objective = [],
              difficulty = ''hard'', qtype = ''multi'', question = ''Q2'',
              option_a = ''one'', option_b = ''two'', option_c = ''three'', option_d = [],
              option_e = [], option_f = [], correct = ''B;C'', explanation = [],
              image_url = [], tags = [] \<rparr>"

definition table2 :: "QuestionRow list" where
  "table2 = [q_easy, q_hard]"

text \<open>The table is loaded; the quiz is started; A is selected; the answer is submitted.\<close>

definition s_loaded :: app_state where
  "s_loaded = init\<lparr>allQs := table2, filtered := table2\<rparr>"

definition s_started :: app_state where
  "s_started = s_loaded\<lparr>mode := Quiz\<rparr>"

definition s_picked :: app_state where
  "s_picked = s_started\<lparr>selected := [''A'']\<rparr>"

definition s_revealed :: app_state where
  "s_revealed = s_picked\<lparr>score := 1, showAnswer := True,
     history := [\<lparr>hist_q = q_easy, hist_sel = [''A''], hist_ok = True\<rparr>]\<rparr>"

text \<open>The second question is shown; B is selected; C is selected too; then A as well.\<close>

definition s_second :: app_state where
  "s_second = s_revealed\<lparr>currentIdx := 1, selected := [], showAnswer := False\<rparr>"

definition s_second_B :: app_state where
  "s_second_B = s_second\<lparr>selected := [''B'']\<rparr>"

definition s_second_BC :: app_state where
  "s_second_BC = s_second\<lparr>selected := [''B'', ''C'']\<rparr>"

definition evs_picked :: "event list" where
  "evs_picked = [CsvLoaded, ClickStart, ClickOption ''A'']"

definition evs_revealed :: "event list" where
  "evs_revealed = [CsvLoaded, ClickStart, ClickOption ''A'', ClickSubmit]"

definition evs_second_B :: "event list" where
  "evs_second_B = [CsvLoaded, ClickStart, ClickOption ''A'', ClickSubmit, ClickNext, ClickOption ''B'']"

definition s_second_BCA :: app_state where
  "s_second_BCA = s_second\<lparr>selected := [''B'', ''C'', ''A'']\<rparr>"

definition evs_second_BCA :: "event list" where
  "evs_second_BCA = [CsvLoaded, ClickStart, ClickOption ''A'', ClickSubmit, ClickNext, ClickOption ''B'',
                     ClickOption ''C'', ClickOption ''A'']"

definition evs_second_BC :: "event list" where
  "evs_second_BC = [CsvLoaded, ClickStart, ClickOption ''A'', ClickSubmit, ClickNext, ClickOption ''B'',
                    ClickOption ''C'']"

text \<open>With B alone selected, the answer to the second question is submitted.\<close>

definition s_second_revealed :: app_state where
  "s_second_revealed = s_second_B\<lparr>showAnswer := True,
     history := [\<lparr>hist_q = q_easy, hist_sel = [''A''], hist_ok = True\<rparr>,
                 \<lparr>hist_q = q_hard, hist_sel = [''B''], hist_ok = False\<rparr>]\<rparr>"

definition evs_second_revealed :: "event list" where
  "evs_second_revealed = [CsvLoaded, ClickStart, ClickOption ''A'', ClickSubmit, ClickNext,
                          ClickOption ''B'', ClickSubmit]"

text \<open>A quiz that is reset after its first answer and started again, B being the answer then.\<close>

definition s_again :: app_state where
  "s_again = s_started\<lparr>selected := [''B''], showAnswer := True,
     history := [\<lparr>hist_q = q_easy, hist_sel = [''B''], hist_ok = False\<rparr>]\<rparr>"

definition evs_again :: "event list" where
  "evs_again = [CsvLoaded, ClickStart, ClickOption ''A'', ClickSubmit, ClickReset,
                ClickStart, ClickOption ''B'', ClickSubmit]"

text \<open>The difficulty filter is set to easy on the home page.\<close>

definition s_easy :: app_state where
  "s_easy = init\<lparr>allQs := table2, filtered := [q_easy], diff := ''easy''\<rparr>"

definition evs_easy :: "event list" where
  "evs_easy = [CsvLoaded, SelectDifficulty ''easy'']"

text \<open>A row whose correct-answer field names the same letter twice, and a quiz on it.\<close>

definition q_twice :: QuestionRow where
  "q_twice = q_easy\<lparr>correct := ''A;A''\<rparr>"

definition s_twice :: app_state where
  "s_twice = init\<lparr>allQs := [q_twice], filtered := [q_twice], mode := Quiz, selected := [''A'']\<rparr>"

definition evs_twice :: "event list" where
  "evs_twice = [CsvLoaded, ClickStart, ClickOption ''A'']"

section \<open>Facts about the library functions\<close>

lemma js_split_nonempty: "js_split d s \<noteq> []"
  by (induction s) (auto split: list.splits)

lemma set_fold_insert:
  "set (fold (\<lambda>x acc. if x \<in> set acc then acc else acc @ [x]) xs ys) = set xs \<union> set ys"
  by (induction xs arbitrary: ys) auto

lemma distinct_fold_insert:
  "distinct ys \<Longrightarrow> distinct (fold (\<lambda>x acc. if x \<in> set acc then acc else acc @ [x]) xs ys)"
  by (induction xs arbitrary: ys) auto

lemma set_js_Set: "set (js_Set xs) = set xs"
  by (simp add: js_Set_def set_fold_insert)

lemma distinct_js_Set: "distinct (js_Set xs)"
  by (simp add: js_Set_def distinct_fold_insert)

lemma sort_js_Set: "sort (js_Set xs) = sorted_list_of_set (set xs)"
proof -
  have "sorted_list_of_set (set (sort (js_Set xs))) = sort (js_Set xs)"
    by (rule sorted_list_of_set.idem_if_sorted_distinct) (simp_all add: distinct_js_Set)
  then show ?thesis by (simp add: set_js_Set)
qed

lemma count_list_filter: "count_list (filter P xs) x = (if P x then count_list xs x else 0)"
  by (induction xs) auto

section \<open>Facts about the comparison of a selection with the correct letters\<close>




lemma answer_ok_repeated:
  assumes "distinct sel" "\<not> distinct (corr q)"
  shows "\<not> answer_ok sel q"
proof
  assume ok: "answer_ok sel q"
  then have len: "length sel = length (corr q)" and sub: "set sel \<subseteq> set (corr q)"
    by (auto simp: answer_ok_def list_all_iff)
  have "card (set (corr q)) < length (corr q)"
    using assms(2) card_length [of "corr q"] card_distinct [of "corr q"] by linarith
  moreover have "card (set sel) = length sel"
    using assms(1) by (simp add: distinct_card)
  moreover have "card (set sel) \<le> card (set (corr q))"
    using sub by (simp add: card_mono)
  ultimately show False using len by simp
qed

lemma submitAnswer_Some:
  "current s = Some q \<Longrightarrow> selected s \<noteq> [] \<Longrightarrow>
   submitAnswer s = s\<lparr>score := score s + (if answer_ok (selected s) q then 1 else 0),
                      history := history s @ [\<lparr>hist_q = q, hist_sel = selected s,
                                               hist_ok = answer_ok (selected s) q\<rparr>],
                      showAnswer := True\<rparr>"
  by (simp add: submitAnswer_def Let_def)

section \<open>Facts about sessions\<close>

lemma session_inv_init: "session_inv ds init"
  by (simp add: session_inv_def init_def applyFilters_def)

lemma session_inv_fire: "session_inv ds s \<Longrightarrow> fire ds e s = Some t \<Longrightarrow> session_inv ds t"
proof (cases e)
  case CsvLoaded
  assume "session_inv ds s" "fire ds e s = Some t"
  with CsvLoaded show ?thesis
    by (auto simp: session_inv_def filterEffect_def applyFilters_def)
next
  case (ClickOption k)
  assume "session_inv ds s" "fire ds e s = Some t"
  with ClickOption show ?thesis
    by (auto simp: session_inv_def optionRow_onClick_def split: if_splits)
next
  case ClickSubmit
  assume "session_inv ds s" "fire ds e s = Some t"
  with ClickSubmit show ?thesis
    by (auto simp: session_inv_def submitAnswer_def Let_def split: if_splits option.splits)
qed (auto simp: session_inv_def filterEffect_def startQuiz_def nextQuestion_def resetQuiz_def
      split: if_splits)

lemma session_inv_run: "session_inv ds s \<Longrightarrow> run ds evs s = Some t \<Longrightarrow> session_inv ds t"
  by (induction evs arbitrary: s) (auto split: option.splits dest: session_inv_fire)

lemma reachable_inv: "run ds evs init = Some s \<Longrightarrow> session_inv ds s"
  using session_inv_run [OF session_inv_init] .

lemma history_fire:
  "fire ds e s = Some t \<Longrightarrow>
   submitCalls (length (history t)) es = submitCalls (length (history s)) (e # es)"
  by (cases e) (auto simp: filterEffect_def startQuiz_def nextQuestion_def resetQuiz_def
      optionRow_onClick_def submitAnswer_def Let_def split: if_splits option.splits)

lemma history_run:
  "run ds evs s = Some t \<Longrightarrow> length (history t) = submitCalls (length (history s)) evs"
proof (induction evs arbitrary: s)
  case Nil
  then show ?case by simp
next
  case (Cons e es)
  then obtain u where u: "fire ds e s = Some u" and r: "run ds es u = Some t"
    by (auto split: option.splits)
  from Cons.IH [OF r] history_fire [OF u] show ?case by simp
qed

text \<open>The session on the table of two questions, evaluated.\<close>

lemmas eval_defs =
  init_def table2_def q_easy_def q_hard_def q_twice_def s_loaded_def s_started_def s_picked_def
  s_revealed_def s_second_def s_second_B_def s_second_BC_def s_twice_def
  s_second_BCA_def s_second_revealed_def s_again_def s_easy_def evs_second_BCA_def
  evs_picked_def evs_revealed_def evs_second_B_def evs_second_BC_def evs_second_revealed_def
  evs_again_def evs_easy_def evs_twice_def
  filterEffect_def applyFilters_def startQuiz_def current_def optionRendered_def optionText_def
  optionRow_onClick_def submitAnswer_def answer_ok_def corr_def nextQuestion_def resetQuiz_def
  difficultyOptions_def

lemma run_evs_picked: "run table2 evs_picked init = Some s_picked"
  by (simp add: eval_defs)

lemma run_evs_revealed: "run table2 evs_revealed init = Some s_revealed"
  by (simp add: eval_defs)

lemma run_evs_second_B: "run table2 evs_second_B init = Some s_second_B"
  by (simp add: eval_defs)



lemma run_evs_second_revealed: "run table2 evs_second_revealed init = Some s_second_revealed"
  by (simp add: eval_defs)

lemma run_evs_again: "run table2 evs_again init = Some s_again"
  by (simp add: eval_defs)

lemma run_evs_easy: "run table2 evs_easy init = Some s_easy"
  by (simp add: eval_defs)


section \<open>Reset\<close>

text \<open>
  C8. \<^verbatim>\<open>resetQuiz\<close>, from any state, sets the mode to home and clears the current index,
  the score, the selection, the history and the reveal flag; the loaded table, the
  filtered list built from it and the three filter selections (and the theme) stay as
  they are.
\<close>

theorem resetQuiz_frame:
  "mode (resetQuiz s) = Home \<and> currentIdx (resetQuiz s) = 0 \<and> score (resetQuiz s) = 0
   \<and> selected (resetQuiz s) = [] \<and> history (resetQuiz s) = [] \<and> showAnswer (resetQuiz s) = False
   \<and> allQs (resetQuiz s) = allQs s \<and> filtered (resetQuiz s) = filtered s
   \<and> setId (resetQuiz s) = setId s \<and> domainSel (resetQuiz s) = domainSel s
   \<and> diff (resetQuiz s) = diff s \<and> darkMode (resetQuiz s) = darkMode s"
  by (simp add: resetQuiz_def)

section \<open>Filtering\<close>

text \<open>
  C2. For every table and every filter selection, a row is in the filtered list exactly
  when it is in the table and, for each filter cell that is not empty, its field is
  equal to the cell (equality of strings, so case matters); each row occurs in the
  filtered list as often as in the table; the filtered list is a subsequence of the
  table, in the table's order. In every state of a session the cell \<^verbatim>\<open>filtered\<close> holds
  this list for the current table and selection.
\<close>

theorem applyFilters_exact:
  "(q \<in> set (applyFilters qs sid dm df) \<longleftrightarrow>
      q \<in> set qs \<and> (sid \<noteq> [] \<longrightarrow> set_id q = sid) \<and> (dm \<noteq> [] \<longrightarrow> domain q = dm)
      \<and> (df \<noteq> [] \<longrightarrow> difficulty q = df))
   \<and> count_list (applyFilters qs sid dm df) q =
       (if (sid \<noteq> [] \<longrightarrow> set_id q = sid) \<and> (dm \<noteq> [] \<longrightarrow> domain q = dm)
           \<and> (df \<noteq> [] \<longrightarrow> difficulty q = df)
        then count_list qs q else 0)
   \<and> subseq (applyFilters qs sid dm df) qs
   \<and> (run ds evs init = Some s \<longrightarrow>
        filtered s = applyFilters (allQs s) (setId s) (domainSel s) (diff s))"
  using reachable_inv [of ds evs s]
  by (auto simp: applyFilters_def count_list_filter session_inv_def)

theorem applyFilters_exact_witness:
  "''easy'' \<noteq> [] \<and> difficulty q_easy = ''easy'' \<and> q_easy \<in> set table2
   \<and> q_easy \<in> set (applyFilters table2 [] [] ''easy'')
   \<and> count_list (applyFilters table2 [] [] ''easy'') q_easy = 1
   \<and> q_hard \<notin> set (applyFilters table2 [] [] ''easy'')
   \<and> q_easy \<notin> set (applyFilters table2 [] [] ''Easy'')
   \<and> subseq (applyFilters table2 [] [] ''easy'') table2
   \<and> ''A'' \<noteq> [] \<and> ''Core'' \<noteq> [] \<and> ''hard'' \<noteq> []
   \<and> set_id q_hard = ''A'' \<and> domain q_hard = ''Core'' \<and> difficulty q_hard = ''hard''
   \<and> q_hard \<in> set (applyFilters table2 ''A'' ''Core'' ''hard'')
   \<and> applyFilters table2 ''A'' ''Core'' ''hard'' = [q_hard]
   \<and> run table2 evs_easy init = Some s_easy
   \<and> filtered s_easy = [q_easy]
   \<and> applyFilters (allQs s_easy) (setId s_easy) (domainSel s_easy) (diff s_easy) = [q_easy]"
  using applyFilters_exact [of q_easy table2 "[]" "[]" "''easy''" table2 evs_easy s_easy]
    applyFilters_exact [of q_hard table2 "[]" "[]" "''easy''" table2 evs_easy s_easy]
    applyFilters_exact [of q_easy table2 "[]" "[]" "''Easy''" table2 evs_easy s_easy]
    applyFilters_exact [of q_hard table2 "''A''" "''Core''" "''hard''" table2 evs_easy s_easy]
    run_evs_easy
  by (simp add: eval_defs)

section \<open>Option lists\<close>

text \<open>
  C7, as amended. For every state, whatever its filter selection, the option lists of
  the set select and of the domain select are sorted, without repetition, and hold
  exactly the values of that field in the full table \<^verbatim>\<open>allQs\<close>. The option list of the
  difficulty select is the fixed list easy, medium, hard, whatever the table holds.
\<close>

theorem option_lists:
  "sorted (setOptions (allQs s)) \<and> distinct (setOptions (allQs s))
   \<and> set (setOptions (allQs s)) = set_id ` set (allQs s)
   \<and> sorted (domainOptions (allQs s)) \<and> distinct (domainOptions (allQs s))
   \<and> set (domainOptions (allQs s)) = domain ` set (allQs s)
   \<and> setOptions (allQs s) = sorted_list_of_set (set_id ` set (allQs s))
   \<and> domainOptions (allQs s) = sorted_list_of_set (domain ` set (allQs s))
   \<and> difficultyOptions = [''easy'', ''medium'', ''hard'']"
  by (simp add: setOptions_def domainOptions_def difficultyOptions_def set_js_Set distinct_js_Set
      sort_js_Set)

text \<open>
  The claim as stated fails for the difficulty select: for the table holding the one
  row \<open>q_easy\<close> the distinct difficulty values are just easy, yet three options are
  offered; and the offered list is not sorted (hard sorts before medium).
\<close>

theorem difficultyOptions_counterexample:
  "difficultyOptions \<noteq> sorted_list_of_set (difficulty ` set [q_easy])
   \<and> \<not> sorted difficultyOptions"
  by (simp add: difficultyOptions_def less_eq_char_def)

section \<open>Start\<close>

text \<open>
  C6. When the filtered list is empty, \<^verbatim>\<open>startQuiz\<close> raises the alert
  "No questions match filters" and returns the state as it was (so from home the mode
  stays home); when it is not empty, there is no alert and the index and the score are
  0, the history and the selection are empty, the reveal flag is false and the mode is
  quiz. With an empty table the filtered list is empty for every filter selection.
\<close>

theorem startQuiz_cases:
  "(filtered s = [] \<longrightarrow> startQuiz s = (Some ''No questions match filters'', s))
   \<and> (filtered s \<noteq> [] \<longrightarrow>
        startQuiz s = (None, s\<lparr>currentIdx := 0, score := 0, history := [], selected := [],
                                showAnswer := False, mode := Quiz\<rparr>))
   \<and> (allQs s = [] \<longrightarrow> filtered (filterEffect s) = [])"
  by (simp add: startQuiz_def filterEffect_def applyFilters_def)

theorem startQuiz_cases_witness:
  "filtered init = [] \<and> mode init = Home \<and> allQs init = []
   \<and> startQuiz init = (Some ''No questions match filters'', init)
   \<and> filtered (filterEffect init) = []
   \<and> filtered s_loaded \<noteq> [] \<and> mode s_loaded = Home
   \<and> startQuiz s_loaded = (None, s_started)"
  using startQuiz_cases [of init] startQuiz_cases [of s_loaded]
  by (simp add: eval_defs)

section \<open>Submit\<close>




text \<open>
  C10. \<^verbatim>\<open>ok\<close> requires the selection to have as many entries as the correct-answer field
  has tokens between semicolons, repeated tokens counted each time. So when a token is
  repeated, no selection without repetition is marked correct, and \<^verbatim>\<open>submitAnswer\<close> on
  such a selection appends an entry marked incorrect and leaves the score as it is.
\<close>

theorem repeated_letter_never_correct:
  "(answer_ok sel q \<longrightarrow> length sel = length (js_split CHR '';'' (correct q)))
   \<and> (distinct sel \<and> \<not> distinct (js_split CHR '';'' (correct q)) \<longrightarrow> \<not> answer_ok sel q)
   \<and> (current s = Some q \<and> selected s \<noteq> [] \<and> distinct (selected s)
        \<and> \<not> distinct (js_split CHR '';'' (correct q)) \<longrightarrow>
        submitAnswer s =
          s\<lparr>history := history s @ [\<lparr>hist_q = q, hist_sel = selected s, hist_ok = False\<rparr>],
            showAnswer := True\<rparr>)"
  using answer_ok_repeated [of sel q] answer_ok_repeated [of "selected s" q]
  by (auto simp: submitAnswer_Some) (simp_all add: answer_ok_def corr_def)

theorem repeated_letter_never_correct_witness:
  "distinct [''A''] \<and> js_split CHR '';'' (correct q_twice) = [''A'', ''A'']
   \<and> set [''A''] = set (js_split CHR '';'' (correct q_twice))
   \<and> \<not> answer_ok [''A''] q_twice
   \<and> answer_ok [''A'', ''A''] q_twice
   \<and> length [''A'', ''A''] = length (js_split CHR '';'' (correct q_twice))
   \<and> current s_twice = Some q_twice \<and> selected s_twice = [''A'']
   \<and> score (submitAnswer s_twice) = score s_twice
   \<and> history (submitAnswer s_twice) = [\<lparr>hist_q = q_twice, hist_sel = [''A''], hist_ok = False\<rparr>]"
  using repeated_letter_never_correct [of "[''A'']" q_twice s_twice]
    repeated_letter_never_correct [of "[''A'', ''A'']" q_twice s_twice]
  by (simp add: eval_defs)

text \<open>
  C5. The page permits a submit only while the mode is quiz, the reveal flag is false and
  the selection is not empty: the submit button, the one control bound to
  \<^verbatim>\<open>submitAnswer\<close>, is rendered only in the quiz with a current question and the reveal
  flag false, and is disabled while nothing is selected. In every state that violates
  one of these conditions (in particular with the reveal flag already true, or with an
  empty selection) no submit event is possible and an attempt to submit leaves the whole
  state as it is: the history, the score, the index and the reveal flag are unchanged.
  Where a submit event is possible, all the conditions hold and the event runs
  \<^verbatim>\<open>submitAnswer\<close>. The handler itself also returns the state unchanged when there is no
  current question or the selection is empty.
\<close>

theorem submit_only_when_permitted:
  "(mode s \<noteq> Quiz \<or> current s = None \<or> showAnswer s \<or> selected s = [] \<longrightarrow>
        fire ds ClickSubmit s = None \<and> attempt ds ClickSubmit s = s
        \<and> history (attempt ds ClickSubmit s) = history s
        \<and> score (attempt ds ClickSubmit s) = score s
        \<and> currentIdx (attempt ds ClickSubmit s) = currentIdx s
        \<and> showAnswer (attempt ds ClickSubmit s) = showAnswer s)
   \<and> (fire ds ClickSubmit s = Some t \<longrightarrow>
        mode s = Quiz \<and> current s \<noteq> None \<and> \<not> showAnswer s \<and> selected s \<noteq> []
        \<and> t = submitAnswer s)
   \<and> (mode s = Quiz \<and> current s \<noteq> None \<and> \<not> showAnswer s \<and> selected s \<noteq> [] \<longrightarrow>
        fire ds ClickSubmit s = Some (submitAnswer s))
   \<and> (current s = None \<or> selected s = [] \<longrightarrow> submitAnswer s = s)"
  by (auto simp: attempt_def submitAnswer_def split: option.splits)

theorem submit_only_when_permitted_witness:
  "mode s_loaded \<noteq> Quiz \<and> fire table2 ClickSubmit s_loaded = None
   \<and> attempt table2 ClickSubmit s_loaded = s_loaded
   \<and> mode s_started = Quiz \<and> selected s_started = []
   \<and> fire table2 ClickSubmit s_started = None
   \<and> attempt table2 ClickSubmit s_started = s_started
   \<and> submitAnswer s_started = s_started
   \<and> mode s_revealed = Quiz \<and> showAnswer s_revealed \<and> selected s_revealed = [''A'']
   \<and> fire table2 ClickSubmit s_revealed = None
   \<and> attempt table2 ClickSubmit s_revealed = s_revealed
   \<and> history (attempt table2 ClickSubmit s_revealed) = history s_revealed
   \<and> score (attempt table2 ClickSubmit s_revealed) = 1
   \<and> currentIdx (attempt table2 ClickSubmit s_revealed) = 0
   \<and> showAnswer (attempt table2 ClickSubmit s_revealed)
   \<and> mode s_picked = Quiz \<and> current s_picked = Some q_easy \<and> \<not> showAnswer s_picked
   \<and> selected s_picked = [''A'']
   \<and> fire table2 ClickSubmit s_picked = Some s_revealed
   \<and> submitAnswer s_picked = s_revealed"
proof -
  have loaded: "mode s_loaded \<noteq> Quiz"
    and started: "mode s_started = Quiz" "selected s_started = []"
    and revealed: "mode s_revealed = Quiz" "showAnswer s_revealed" "selected s_revealed = [''A'']"
      "score s_revealed = 1" "currentIdx s_revealed = 0"
    and picked: "mode s_picked = Quiz" "current s_picked = Some q_easy" "\<not> showAnswer s_picked"
      "selected s_picked = [''A'']"
    by (simp_all add: eval_defs)
  have submitted: "submitAnswer s_picked = s_revealed"
    by (simp add: eval_defs)
  from submit_only_when_permitted [of s_loaded table2] loaded
  have at_loaded: "fire table2 ClickSubmit s_loaded = None"
    "attempt table2 ClickSubmit s_loaded = s_loaded"
    by simp_all
  from submit_only_when_permitted [of s_started table2] started
  have at_started: "fire table2 ClickSubmit s_started = None"
    "attempt table2 ClickSubmit s_started = s_started" "submitAnswer s_started = s_started"
    by simp_all
  from submit_only_when_permitted [of s_revealed table2] revealed
  have at_revealed: "fire table2 ClickSubmit s_revealed = None"
    "attempt table2 ClickSubmit s_revealed = s_revealed"
    by simp_all
  from submit_only_when_permitted [of s_picked table2] picked submitted
  have at_picked: "fire table2 ClickSubmit s_picked = Some s_revealed"
    by simp
  show ?thesis
    by (simp add: loaded started revealed picked submitted at_loaded at_started at_revealed
        at_picked)
qed

section \<open>Sessions\<close>

text \<open>
  C3. In every state reached from the initial state by a sequence of events, the score
  is the number of history entries marked correct, and the history has as many entries
  as the submit button was clicked since the last click on start or reset.
\<close>

theorem score_counts_history:
  "run ds evs init = Some s \<Longrightarrow>
   score s = length (filter hist_ok (history s)) \<and> length (history s) = submitCalls 0 evs"
  using reachable_inv [of ds evs s] history_run [of ds evs init s]
  by (simp add: session_inv_def init_def)

theorem score_counts_history_witness:
  "run table2 evs_revealed init = Some s_revealed
   \<and> score s_revealed = 1 \<and> length (filter hist_ok (history s_revealed)) = 1
   \<and> length (history s_revealed) = 1 \<and> submitCalls 0 evs_revealed = 1
   \<and> run table2 evs_again init = Some s_again
   \<and> score s_again = 0 \<and> length (filter hist_ok (history s_again)) = 0
   \<and> length (history s_again) = 1 \<and> submitCalls 0 evs_again = 1"
  using score_counts_history [OF run_evs_revealed] score_counts_history [OF run_evs_again]
    run_evs_revealed run_evs_again
  by (simp add: eval_defs)

text \<open>
  C4. \<^verbatim>\<open>nextQuestion\<close> sets the mode to results when the index plus 1 reaches the length
  of the filtered list, and otherwise adds 1 to the index, empties the selection and
  clears the reveal flag. In every state of a session with mode quiz the index is
  smaller than the length of the filtered list.
\<close>

theorem nextQuestion_in_range:
  "(currentIdx s + 1 \<ge> length (filtered s) \<longrightarrow> nextQuestion s = s\<lparr>mode := Results\<rparr>)
   \<and> (currentIdx s + 1 < length (filtered s) \<longrightarrow>
        nextQuestion s = s\<lparr>currentIdx := currentIdx s + 1, selected := [], showAnswer := False\<rparr>)
   \<and> (run ds evs init = Some s \<and> mode s = Quiz \<longrightarrow> currentIdx s < length (filtered s))"
  using reachable_inv [of ds evs s]
  by (auto simp: nextQuestion_def session_inv_def)

theorem nextQuestion_in_range_witness:
  "run table2 evs_revealed init = Some s_revealed \<and> mode s_revealed = Quiz \<and> showAnswer s_revealed
   \<and> currentIdx s_revealed + 1 < length (filtered s_revealed)
   \<and> nextQuestion s_revealed = s_second
   \<and> currentIdx s_revealed < length (filtered s_revealed)
   \<and> run table2 evs_second_revealed init = Some s_second_revealed
   \<and> mode s_second_revealed = Quiz \<and> showAnswer s_second_revealed
   \<and> currentIdx s_second_revealed + 1 \<ge> length (filtered s_second_revealed)
   \<and> nextQuestion s_second_revealed = s_second_revealed\<lparr>mode := Results\<rparr>
   \<and> currentIdx s_second_revealed < length (filtered s_second_revealed)"
  using nextQuestion_in_range [of s_revealed table2 evs_revealed]
    nextQuestion_in_range [of s_second_revealed table2 evs_second_revealed]
    run_evs_revealed run_evs_second_revealed
  by (simp add: eval_defs)

text \<open>
  C9. In every state of a session no letter occurs twice in the selection. A click on
  the option row of letter \<open>k\<close>, while the answer is not revealed, makes the selection
  the one letter \<open>k\<close> when the current question is not of type multi; when it is, the
  click removes \<open>k\<close> if it is selected and appends it if it is not.
\<close>

theorem selected_distinct:
  "(run ds evs init = Some s \<longrightarrow> distinct (selected s))
   \<and> (\<not> showAnswer s \<and> current s = Some q \<and> qtype q \<noteq> ''multi'' \<longrightarrow>
        selected (optionRow_onClick k s) = [k])
   \<and> (\<not> showAnswer s \<and> current s = Some q \<and> qtype q = ''multi'' \<and> k \<in> set (selected s) \<longrightarrow>
        selected (optionRow_onClick k s) = filter (\<lambda>i. i \<noteq> k) (selected s))
   \<and> (\<not> showAnswer s \<and> current s = Some q \<and> qtype q = ''multi'' \<and> k \<notin> set (selected s) \<longrightarrow>
        selected (optionRow_onClick k s) = selected s @ [k])"
  using reachable_inv [of ds evs s]
  by (auto simp: optionRow_onClick_def session_inv_def)

theorem selected_distinct_witness:
  "run table2 evs_picked init = Some s_picked \<and> distinct (selected s_picked)
   \<and> \<not> showAnswer s_picked \<and> current s_picked = Some q_easy \<and> qtype q_easy \<noteq> ''multi''
   \<and> selected (optionRow_onClick ''B'' s_picked) = [''B'']
   \<and> run table2 evs_second_B init = Some s_second_B \<and> distinct (selected s_second_B)
   \<and> \<not> showAnswer s_second_B \<and> current s_second_B = Some q_hard \<and> qtype q_hard = ''multi''
   \<and> ''B'' \<in> set (selected s_second_B) \<and> selected (optionRow_onClick ''B'' s_second_B) = []
   \<and> ''C'' \<notin> set (selected s_second_B)
   \<and> selected (optionRow_onClick ''C'' s_second_B) = [''B'', ''C'']"
  using selected_distinct [of table2 evs_picked s_picked q_easy "''B''"]
    selected_distinct [of table2 evs_second_B s_second_B q_hard "''B''"]
    selected_distinct [of table2 evs_second_B s_second_B q_hard "''C''"]
    run_evs_picked run_evs_second_B
  by (simp add: eval_defs)

end
